theory Spec2Isabelle
  imports Main "HOL-Library.Word"
begin

unbundle bit_operations_syntax

section \<open>Passthrough PCI device model (hypervisor/dm/vpci/pci_pt.c)\<close>

subsection \<open>Constants and macros of the headers\<close>

text \<open>
  Modelled from the spec: \<^verbatim>\<open>pci_priv.h\<close> and the other headers that \<^verbatim>\<open>pci_pt.c\<close>
  includes are not among the sources, so their constants and macros are written down here.
  The spec fixes six consecutive 4-byte BAR registers, bit 0 of a BAR register as the
  memory-space indicator (0 for memory), bits 1 and 2 as the address-width type (32 bit),
  and the base in the remaining high bits; the numbers are those of the PCI configuration
  header (BAR registers from offset 0x10, command register at offset 4 with
  memory-space enable in bit 1, configuration ports 0xCF8 and 0xCFC, enable bit 31 of the
  address word). \<open>PCI_BUS\<close> and \<open>LOBYTE\<close> take the two bytes of a bus/device/function
  key, \<open>HVA2HPA\<close> is the identity of the hypervisor's own mapping, the permission bits of a
  translation are read (bit 0), write (bit 1) and the uncached memory type (0 in the type
  field from bit 3), and \<open>EINVAL\<close> is the errno value 22.
\<close>

definition PCI_BAR_COUNT :: "32 word" where
  "PCI_BAR_COUNT = 6"

definition PCI_CONFIG_ADDR :: "16 word" where
  "PCI_CONFIG_ADDR = 0xCF8"

definition PCI_CONFIG_DATA :: "16 word" where
  "PCI_CONFIG_DATA = 0xCFC"

definition PCI_CFG_ENABLE :: "32 word" where
  "PCI_CFG_ENABLE = 0x80000000"

definition PCIR_COMMAND :: "32 word" where
  "PCIR_COMMAND = 0x04"

definition PCIM_CMD_MEMEN :: "32 word" where
  "PCIM_CMD_MEMEN = 0x0002"

definition PCIR_BARS :: "32 word" where
  "PCIR_BARS = 0x10"

definition PCIR_BAR :: "32 word \<Rightarrow> 32 word" where
  "PCIR_BAR x = PCIR_BARS + x * 4"

definition PCIM_BAR_MEM_SPACE :: "32 word" where
  "PCIM_BAR_MEM_SPACE = 0"

definition PCIM_BAR_MEM_32 :: "32 word" where
  "PCIM_BAR_MEM_32 = 0"

definition PCIM_BAR_MEM_BASE :: "32 word" where
  "PCIM_BAR_MEM_BASE = 0xFFFFFFF0"

definition PCI_BAR_BASE :: "32 word \<Rightarrow> 32 word" where
  "PCI_BAR_BASE val = val AND PCIM_BAR_MEM_BASE"

definition PCI_BAR :: "64 word \<Rightarrow> 32 word \<Rightarrow> 64 word" where
  "PCI_BAR b t = b OR ucast t"

definition PCI_BUS :: "16 word \<Rightarrow> 8 word" where
  "PCI_BUS x = ucast (drop_bit 8 x AND 0xFF)"

definition LOBYTE :: "16 word \<Rightarrow> 8 word" where
  "LOBYTE x = ucast (x AND 0xFF)"

definition HVA2HPA :: "64 word \<Rightarrow> 64 word" where
  "HVA2HPA x = x"

definition EPT_RD :: "64 word" where
  "EPT_RD = push_bit 0 1"

definition EPT_WR :: "64 word" where
  "EPT_WR = push_bit 1 1"

definition EPT_UNCACHED :: "64 word" where
  "EPT_UNCACHED = push_bit 3 0"

definition EINVAL :: int where
  "EINVAL = 22"

subsection \<open>Device records\<close>

text \<open>
  Modelled from the spec: the declarations of \<^verbatim>\<open>struct pci_bar\<close>, \<^verbatim>\<open>struct pci_pdev\<close>,
  \<^verbatim>\<open>struct pci_vdev\<close> and \<^verbatim>\<open>struct vm\<close> are in headers that are not among the sources;
  the records have the fields that \<^verbatim>\<open>pci_pt.c\<close> touches. A descriptor has a type, a base
  and a size; base and size are 64-bit quantities (the file passes them as host and guest
  physical addresses), and a base or size that fits 32 bits behaves as a 32-bit field
  would. Every BAR array has \<open>PCI_BAR_COUNT\<close> entries. The virtual configuration space
  \<open>cfgdata\<close> is the byte image of the spec. A null pointer is \<open>None\<close>.
\<close>

record pci_bar =
  base :: "64 word"
  size_bar :: "64 word"
  type_bar :: "32 word"

record pci_pdev =
  pdev_bar :: "pci_bar list"
  bdf :: "16 word"

record pci_vdev =
  pdev :: pci_pdev
  cfgdata :: "nat \<Rightarrow> 8 word"
  bar :: "pci_bar list"

record vm =
  vm_id :: "16 word"
  iommu :: "nat option"
  nworld_eptp :: "64 word"

subsection \<open>Collaborators: calls that leave the file\<close>

text \<open>
  Modelled from the spec: port I/O, the second-level translation tables, the IOMMU and
  the log are collaborators whose code is not among the sources; the spec gives their
  contracts only. Every call to them is recorded, in order and with its arguments, in the
  \<open>trace\<close> of the machine state; what a call returns is given by an environment, as a
  function of the trace up to and including that call, so that nothing is assumed about
  the results. The machine state holds one device record and the record of its VM.
\<close>

datatype event =
    Spinlock_obtain
  | Spinlock_release
  | Pio_write "32 word" "16 word" nat
  | Pio_read "16 word" nat
  | Ept_mr_del "64 word" "64 word" "64 word"
  | Ept_mr_add "64 word" "64 word" "64 word" "64 word" "64 word"
  | Alloc_paging_struct
  | Create_iommu_domain "16 word" "64 word" "32 word"
  | Assign_iommu_device "nat option" "8 word" "8 word"
  | Unassign_iommu_device "nat option" "8 word" "8 word"
  | Pr_err string "nat list"

record env =
  pio_read_val :: "event list \<Rightarrow> 32 word"
  ept_mr_del_ret :: "event list \<Rightarrow> int"
  ept_mr_add_ret :: "event list \<Rightarrow> int"
  alloc_paging_struct_ret :: "event list \<Rightarrow> 64 word"
  create_iommu_domain_ret :: "event list \<Rightarrow> nat option"
  assign_iommu_device_ret :: "event list \<Rightarrow> int"
  unassign_iommu_device_ret :: "event list \<Rightarrow> int"

record machine =
  vdev :: pci_vdev
  vm_of :: vm
  trace :: "event list"

definition emit :: "event \<Rightarrow> machine \<Rightarrow> machine" where
  "emit e s = s\<lparr>trace := trace s @ [e]\<rparr>"

definition pio_write :: "32 word \<Rightarrow> 16 word \<Rightarrow> nat \<Rightarrow> machine \<Rightarrow> machine" where
  "pio_write v port sz s = emit (Pio_write (take_bit (8 * sz) v) port sz) s"

definition pio_read :: "env \<Rightarrow> 16 word \<Rightarrow> nat \<Rightarrow> machine \<Rightarrow> 32 word \<times> machine" where
  "pio_read E port sz s =
     (let s' = emit (Pio_read port sz) s
      in (take_bit (8 * sz) (pio_read_val E (trace s')), s'))"

definition ept_mr_del ::
  "env \<Rightarrow> machine \<Rightarrow> 64 word \<Rightarrow> 64 word \<Rightarrow> 64 word \<Rightarrow> int \<times> machine" where
  "ept_mr_del E s pml4 gpa sz =
     (let s' = emit (Ept_mr_del pml4 gpa sz) s in (ept_mr_del_ret E (trace s'), s'))"

definition ept_mr_add ::
  "env \<Rightarrow> machine \<Rightarrow> 64 word \<Rightarrow> 64 word \<Rightarrow> 64 word \<Rightarrow> 64 word \<Rightarrow> 64 word
     \<Rightarrow> int \<times> machine" where
  "ept_mr_add E s pml4 hpa gpa sz prot =
     (let s' = emit (Ept_mr_add pml4 hpa gpa sz prot) s in (ept_mr_add_ret E (trace s'), s'))"

definition alloc_paging_struct :: "env \<Rightarrow> machine \<Rightarrow> 64 word \<times> machine" where
  "alloc_paging_struct E s =
     (let s' = emit Alloc_paging_struct s in (alloc_paging_struct_ret E (trace s'), s'))"

definition create_iommu_domain ::
  "env \<Rightarrow> machine \<Rightarrow> 16 word \<Rightarrow> 64 word \<Rightarrow> 32 word \<Rightarrow> nat option \<times> machine" where
  "create_iommu_domain E s vmid root width =
     (let s' = emit (Create_iommu_domain vmid root width) s
      in (create_iommu_domain_ret E (trace s'), s'))"

definition assign_iommu_device ::
  "env \<Rightarrow> machine \<Rightarrow> nat option \<Rightarrow> 8 word \<Rightarrow> 8 word \<Rightarrow> int \<times> machine" where
  "assign_iommu_device E s domain bus devfn =
     (let s' = emit (Assign_iommu_device domain bus devfn) s
      in (assign_iommu_device_ret E (trace s'), s'))"

definition unassign_iommu_device ::
  "env \<Rightarrow> machine \<Rightarrow> nat option \<Rightarrow> 8 word \<Rightarrow> 8 word \<Rightarrow> int \<times> machine" where
  "unassign_iommu_device E s domain bus devfn =
     (let s' = emit (Unassign_iommu_device domain bus devfn) s
      in (unassign_iommu_device_ret E (trace s'), s'))"

definition pr_err :: "string \<Rightarrow> nat list \<Rightarrow> machine \<Rightarrow> machine" where
  "pr_err fmt args s = emit (Pr_err fmt args) s"

subsection \<open>The virtual configuration-space image\<close>

text \<open>
  Modelled from the spec: \<^verbatim>\<open>pci_vdev_read_cfg\<close> and \<^verbatim>\<open>pci_vdev_write_cfg_u32\<close> are
  declared in \<^verbatim>\<open>pci_priv.h\<close>, which is not among the sources. The spec calls the
  virtual configuration space a byte image that caches the value written to a BAR
  register and answers reads of it; values are stored little-endian at the byte offset.
\<close>

definition pci_vdev_write_cfg_u32 :: "pci_vdev \<Rightarrow> 32 word \<Rightarrow> 32 word \<Rightarrow> pci_vdev" where
  "pci_vdev_write_cfg_u32 vd offset val =
     vd\<lparr>cfgdata := (cfgdata vd)
        (unat offset := ucast val,
         unat offset + 1 := ucast (drop_bit 8 val),
         unat offset + 2 := ucast (drop_bit 16 val),
         unat offset + 3 := ucast (drop_bit 24 val))\<rparr>"

definition pci_vdev_read_cfg_u8 :: "pci_vdev \<Rightarrow> 32 word \<Rightarrow> 32 word" where
  "pci_vdev_read_cfg_u8 vd offset = ucast (cfgdata vd (unat offset))"

definition pci_vdev_read_cfg_u16 :: "pci_vdev \<Rightarrow> 32 word \<Rightarrow> 32 word" where
  "pci_vdev_read_cfg_u16 vd offset =
     ucast (cfgdata vd (unat offset)) OR push_bit 8 (ucast (cfgdata vd (unat offset + 1)))"

definition pci_vdev_read_cfg_u32 :: "pci_vdev \<Rightarrow> 32 word \<Rightarrow> 32 word" where
  "pci_vdev_read_cfg_u32 vd offset =
     ucast (cfgdata vd (unat offset))
     OR push_bit 8 (ucast (cfgdata vd (unat offset + 1)))
     OR push_bit 16 (ucast (cfgdata vd (unat offset + 2)))
     OR push_bit 24 (ucast (cfgdata vd (unat offset + 3)))"

definition pci_vdev_read_cfg :: "pci_vdev \<Rightarrow> 32 word \<Rightarrow> 32 word \<Rightarrow> 32 word" where
  "pci_vdev_read_cfg vd offset bytes =
     (if bytes = 1 then pci_vdev_read_cfg_u8 vd offset
      else if bytes = 2 then pci_vdev_read_cfg_u16 vd offset
      else pci_vdev_read_cfg_u32 vd offset)"

subsection \<open>Physical configuration-space access\<close>

definition pci_pdev_calc_address :: "16 word \<Rightarrow> 32 word \<Rightarrow> 32 word" where
  "pci_pdev_calc_address b offset = push_bit 8 (ucast b) OR (offset OR PCI_CFG_ENABLE)"

definition pci_pdev_read_cfg ::
  "env \<Rightarrow> machine \<Rightarrow> 32 word \<Rightarrow> 32 word \<Rightarrow> 32 word \<times> machine" where
  "pci_pdev_read_cfg E s offset bytes =
     (let s1 = emit Spinlock_obtain s;
          addr = pci_pdev_calc_address (bdf (pdev (vdev s1))) offset;
          s2 = pio_write addr PCI_CONFIG_ADDR 4 s1;
          (val, s3) =
            (if bytes = 1 then pio_read E (PCI_CONFIG_DATA + ucast (offset AND 3)) 1 s2
             else if bytes = 2 then pio_read E (PCI_CONFIG_DATA + ucast (offset AND 2)) 2 s2
             else pio_read E PCI_CONFIG_DATA 4 s2)
      in (val, emit Spinlock_release s3))"

definition pci_pdev_write_cfg ::
  "machine \<Rightarrow> 32 word \<Rightarrow> 32 word \<Rightarrow> 32 word \<Rightarrow> machine" where
  "pci_pdev_write_cfg s offset bytes val =
     (let s1 = emit Spinlock_obtain s;
          addr = pci_pdev_calc_address (bdf (pdev (vdev s1))) offset;
          s2 = pio_write addr PCI_CONFIG_ADDR 4 s1;
          s3 =
            (if bytes = 1 then pio_write val (PCI_CONFIG_DATA + ucast (offset AND 3)) 1 s2
             else if bytes = 2 then pio_write val (PCI_CONFIG_DATA + ucast (offset AND 2)) 2 s2
             else pio_write val PCI_CONFIG_DATA 4 s2)
      in emit Spinlock_release s3)"

subsection \<open>Initialisation\<close>

function vdev_pt_init_validate_from :: "pci_vdev \<Rightarrow> nat \<Rightarrow> int" where
  "vdev_pt_init_validate_from vd idx =
     (if idx < unat PCI_BAR_COUNT then
        (if type_bar (bar vd ! idx) \<noteq> PCIM_BAR_MEM_32 then - EINVAL
         else vdev_pt_init_validate_from vd (Suc idx))
      else 0)"
  by pat_completeness auto
termination
  by (relation "measure (\<lambda>(vd, idx). unat PCI_BAR_COUNT - idx)") auto

declare vdev_pt_init_validate_from.simps [simp del]

definition vdev_pt_init_validate :: "pci_vdev \<Rightarrow> int" where
  "vdev_pt_init_validate vd = vdev_pt_init_validate_from vd 0"

function vdev_pt_init_bar_registers_from :: "pci_vdev \<Rightarrow> nat \<Rightarrow> pci_vdev" where
  "vdev_pt_init_bar_registers_from vd idx =
     (if idx < unat PCI_BAR_COUNT then
        vdev_pt_init_bar_registers_from
          (pci_vdev_write_cfg_u32 vd (PCIR_BAR (of_nat idx))
             (ucast (PCI_BAR (base (bar vd ! idx)) (type_bar (bar vd ! idx)))))
          (Suc idx)
      else vd)"
  by pat_completeness auto
termination
  by (relation "measure (\<lambda>(vd, idx). unat PCI_BAR_COUNT - idx)") auto

declare vdev_pt_init_bar_registers_from.simps [simp del]

definition vdev_pt_init_bar_registers :: "pci_vdev \<Rightarrow> pci_vdev" where
  "vdev_pt_init_bar_registers vd = vdev_pt_init_bar_registers_from vd 0"

definition vdev_pt_init :: "env \<Rightarrow> machine \<Rightarrow> int \<times> machine" where
  "vdev_pt_init E s =
     (let ret = vdev_pt_init_validate (vdev s) in
      if ret \<noteq> 0 then
        (ret, pr_err ''virtual bar can only be of type PCIM_BAR_MEM_32!'' [] s)
      else
        let s3 =
              (if iommu (vm_of s) = None then
                 let s1 =
                       (if nworld_eptp (vm_of s) = 0 then
                          let (p, sa) = alloc_paging_struct E s
                          in sa\<lparr>vm_of := (vm_of sa)\<lparr>nworld_eptp := p\<rparr>\<rparr>
                        else s);
                     (d, s2) = create_iommu_domain E s1 (vm_id (vm_of s1))
                                 (HVA2HPA (nworld_eptp (vm_of s1))) 48
                 in s2\<lparr>vm_of := (vm_of s2)\<lparr>iommu := d\<rparr>\<rparr>
               else s);
            (ret', s4) = assign_iommu_device E s3 (iommu (vm_of s3))
                           (PCI_BUS (bdf (pdev (vdev s3)))) (LOBYTE (bdf (pdev (vdev s3))))
        in (ret', s4\<lparr>vdev := vdev_pt_init_bar_registers (vdev s4)\<rparr>))"

definition vdev_pt_deinit :: "env \<Rightarrow> machine \<Rightarrow> int \<times> machine" where
  "vdev_pt_deinit E s =
     unassign_iommu_device E s (iommu (vm_of s))
       (PCI_BUS (bdf (pdev (vdev s)))) (LOBYTE (bdf (pdev (vdev s))))"

subsection \<open>Configuration reads\<close>

definition bar_access :: "32 word \<Rightarrow> int" where
  "bar_access coff =
     (if coff \<ge> PCIR_BAR 0 \<and> coff < PCIR_BAR PCI_BAR_COUNT then 1 else 0)"

text \<open>The result is the returned status, the value stored through \<open>val\<close>, and the state.\<close>

definition vdev_pt_cfgread ::
  "env \<Rightarrow> machine \<Rightarrow> 32 word \<Rightarrow> 32 word \<Rightarrow> int \<times> 32 word \<times> machine" where
  "vdev_pt_cfgread E s offset bytes =
     (if offset AND (bytes - 1) \<noteq> 0 then (- EINVAL, 0xffffffff, s)
      else if bar_access offset \<noteq> 0 then
        (0, pci_vdev_read_cfg (vdev s) offset bytes, s)
      else
        let (v, s') = pci_pdev_read_cfg E s offset bytes in (0, v, s'))"

subsection \<open>Configuration writes and BAR reprogramming\<close>

definition vdev_pt_remap_bar ::
  "env \<Rightarrow> machine \<Rightarrow> nat \<Rightarrow> 32 word \<Rightarrow> int \<times> machine" where
  "vdev_pt_remap_bar E s idx new_base =
     (let (error, s1) =
            (if base (bar (vdev s) ! idx) \<noteq> 0 then
               ept_mr_del E s (nworld_eptp (vm_of s))
                 (base (bar (vdev s) ! idx)) (size_bar (bar (vdev s) ! idx))
             else (0, s))
      in if error \<noteq> 0 then (error, s1)
         else if new_base \<noteq> 0 then
           ept_mr_add E s1 (nworld_eptp (vm_of s1))
             (base (pdev_bar (pdev (vdev s1)) ! idx)) (ucast new_base)
             (size_bar (bar (vdev s1) ! idx)) (EPT_WR OR EPT_RD OR EPT_UNCACHED)
         else (error, s1))"

definition memen :: "env \<Rightarrow> machine \<Rightarrow> 32 word \<times> machine" where
  "memen E s =
     (let (v, s') = pci_pdev_read_cfg E s PCIR_COMMAND 2 in (v AND PCIM_CMD_MEMEN, s'))"

definition vdev_pt_cfgwrite_bar ::
  "env \<Rightarrow> machine \<Rightarrow> 32 word \<Rightarrow> 32 word \<Rightarrow> 32 word \<Rightarrow> machine" where
  "vdev_pt_cfgwrite_bar E s offset bytes new_bar_uos =
     (let idx = unat (drop_bit 2 (offset - PCIR_BAR 0));
          mask = (ucast (NOT (size_bar (bar (vdev s) ! idx) - 1)) :: 32 word);
          bar_update_normal = (new_bar_uos \<noteq> NOT 0);
          new_bar = (new_bar_uos AND mask) OR (PCIM_BAR_MEM_SPACE OR PCIM_BAR_MEM_32)
      in if ucast (PCI_BAR_BASE new_bar) = base (bar (vdev s) ! idx) then s
         else
           let (m, s1) = memen E s;
               do_map = (m \<noteq> 0 \<and> bar_update_normal);
               s2 =
                 (if do_map then
                    let (error, sr) = vdev_pt_remap_bar E s1 idx (PCI_BAR_BASE new_bar)
                    in if error \<noteq> 0 then pr_err ''vdev_pt_remap_bar failed: %d'' [idx] sr
                       else sr
                  else s1);
               vd = pci_vdev_write_cfg_u32 (vdev s2) offset new_bar
           in s2\<lparr>vdev :=
                   vd\<lparr>bar := (bar vd)
                        [idx := (bar vd ! idx)\<lparr>base := ucast (PCI_BAR_BASE new_bar)\<rparr>]\<rparr>\<rparr>)"

definition vdev_pt_cfgwrite ::
  "env \<Rightarrow> machine \<Rightarrow> 32 word \<Rightarrow> 32 word \<Rightarrow> 32 word \<Rightarrow> int \<times> machine" where
  "vdev_pt_cfgwrite E s offset bytes val =
     (if offset AND (bytes - 1) \<noteq> 0 then (- EINVAL, s)
      else if bar_access offset \<noteq> 0 then (0, vdev_pt_cfgwrite_bar E s offset bytes val)
      else (0, pci_pdev_write_cfg s offset bytes val))"

subsection \<open>Sequences of writes\<close>

text \<open>A guest issues configuration writes one after the other: offset, width, value.\<close>

fun cfgwrites :: "env \<Rightarrow> machine \<Rightarrow> (32 word \<times> 32 word \<times> 32 word) list \<Rightarrow> machine" where
  "cfgwrites E s [] = s"
| "cfgwrites E s ((offset, bytes, val) # ws) =
     cfgwrites E (snd (vdev_pt_cfgwrite E s offset bytes val)) ws"

subsection \<open>Vocabulary of the specification\<close>

text \<open>
  The calls to the translation tables, to the configuration ports and to the IOMMU
  that a trace contains, in order.
\<close>

fun is_ept_call :: "event \<Rightarrow> bool" where
  "is_ept_call (Ept_mr_del pml4 gpa sz) = True"
| "is_ept_call (Ept_mr_add pml4 hpa gpa sz prot) = True"
| "is_ept_call e = False"

definition ept_calls :: "event list \<Rightarrow> event list" where
  "ept_calls t = filter is_ept_call t"

fun is_pio_call :: "event \<Rightarrow> bool" where
  "is_pio_call (Pio_write v port sz) = True"
| "is_pio_call (Pio_read port sz) = True"
| "is_pio_call e = False"

definition pio_calls :: "event list \<Rightarrow> event list" where
  "pio_calls t = filter is_pio_call t"

fun is_iommu_call :: "event \<Rightarrow> bool" where
  "is_iommu_call Alloc_paging_struct = True"
| "is_iommu_call (Create_iommu_domain vmid root width) = True"
| "is_iommu_call (Assign_iommu_device d bus devfn) = True"
| "is_iommu_call (Unassign_iommu_device d bus devfn) = True"
| "is_iommu_call e = False"

definition iommu_calls :: "event list \<Rightarrow> event list" where
  "iommu_calls t = filter is_iommu_call t"

text \<open>
  The BAR index of an offset, the mask \<open>~(size - 1)\<close> of a descriptor, and the base a
  written value decodes to: the value masked, then its base field.
\<close>

definition bar_index :: "32 word \<Rightarrow> nat" where
  "bar_index offset = unat (drop_bit 2 (offset - PCIR_BAR 0))"

definition size_mask :: "pci_bar \<Rightarrow> 32 word" where
  "size_mask b = ucast (NOT (size_bar b - 1))"

definition decoded_base :: "pci_bar \<Rightarrow> 32 word \<Rightarrow> 64 word" where
  "decoded_base b val = ucast (PCI_BAR_BASE (val AND size_mask b))"

text \<open>The device record has its two arrays of \<open>PCI_BAR_COUNT\<close> descriptors.\<close>

definition wf_vdev :: "pci_vdev \<Rightarrow> bool" where
  "wf_vdev vd =
     (length (bar vd) = unat PCI_BAR_COUNT \<and> length (pdev_bar (pdev vd)) = unat PCI_BAR_COUNT)"

text \<open>The invariant of a descriptor, and a size that is a power of two.\<close>

definition bar_aligned :: "pci_bar \<Rightarrow> bool" where
  "bar_aligned b = (base b = 0 \<or> unat (size_bar b) dvd unat (base b))"

definition pow2_size :: "pci_bar \<Rightarrow> bool" where
  "pow2_size b = (\<exists>k \<in> {..< 64 :: nat}. size_bar b = 2 ^ k)"

subsection \<open>A sample device\<close>

text \<open>
  A device whose BAR0 has size 0x10000 and physical base 0xF0000000, with a given
  guest base in BAR0, and an environment with constant answers: the value read from the
  configuration data port (the physical command register, when that is what is read), and
  the results of removing a translation, adding one and attaching the device.
\<close>

definition sample_bars :: "64 word \<Rightarrow> pci_bar list" where
  "sample_bars b =
     [\<lparr>base = b, size_bar = 0x10000, type_bar = PCIM_BAR_MEM_32\<rparr>,
      \<lparr>base = 0, size_bar = 0x1000, type_bar = PCIM_BAR_MEM_32\<rparr>,
      \<lparr>base = 0, size_bar = 0x1000, type_bar = PCIM_BAR_MEM_32\<rparr>,
      \<lparr>base = 0, size_bar = 0x1000, type_bar = PCIM_BAR_MEM_32\<rparr>,
      \<lparr>base = 0, size_bar = 0x1000, type_bar = PCIM_BAR_MEM_32\<rparr>,
      \<lparr>base = 0, size_bar = 0x1000, type_bar = PCIM_BAR_MEM_32\<rparr>]"

definition sample_machine :: "64 word \<Rightarrow> machine" where
  "sample_machine b =
     \<lparr>vdev = \<lparr>pdev = \<lparr>pdev_bar = sample_bars 0xF0000000, bdf = 0x0010\<rparr>,
              cfgdata = (\<lambda>i. 0),
              bar = sample_bars b\<rparr>,
      vm_of = \<lparr>vm_id = 1, iommu = None, nworld_eptp = 0\<rparr>,
      trace = []\<rparr>"

definition sample_env :: "32 word \<Rightarrow> int \<Rightarrow> int \<Rightarrow> int \<Rightarrow> env" where
  "sample_env cmd del_r add_r assign_r =
     \<lparr>pio_read_val = (\<lambda>t. cmd),
      ept_mr_del_ret = (\<lambda>t. del_r),
      ept_mr_add_ret = (\<lambda>t. add_r),
      alloc_paging_struct_ret = (\<lambda>t. 0x1000),
      create_iommu_domain_ret = (\<lambda>t. Some 1),
      assign_iommu_device_ret = (\<lambda>t. assign_r),
      unassign_iommu_device_ret = (\<lambda>t. 0)\<rparr>"

section \<open>Properties\<close>

subsection \<open>Unfolding sets\<close>

lemmas hdr_defs = PCI_BAR_COUNT_def PCIR_BAR_def PCIR_BARS_def PCIM_BAR_MEM_SPACE_def
  PCIM_BAR_MEM_32_def PCI_BAR_BASE_def PCIM_BAR_MEM_BASE_def

lemmas io_defs = emit_def pio_write_def pio_read_def pci_pdev_read_cfg_def
  pci_pdev_write_cfg_def ept_mr_del_def ept_mr_add_def pr_err_def

lemmas spec_defs = bar_access_def bar_index_def decoded_base_def size_mask_def wf_vdev_def

lemmas sample_defs = sample_machine_def sample_env_def sample_bars_def

subsection \<open>Words\<close>

lemma misaligned_iff:
  fixes offset w :: "32 word"
  assumes "w \<in> {1, 2, 4}"
  shows "(offset AND (w - 1) \<noteq> 0) = (unat offset mod unat w \<noteq> 0)"
proof -
  have m1: "offset AND 1 = take_bit 1 offset"
    by (simp add: take_bit_eq_mask)
  have m3: "offset AND 3 = take_bit 2 offset"
    by (simp add: take_bit_eq_mask mask_eq_exp_minus_1)
  have u1: "unat (take_bit 1 offset) = unat offset mod 2"
    by (simp only: unsigned_take_bit_eq) (simp add: take_bit_eq_mod)
  have u3: "unat (take_bit 2 offset) = unat offset mod 4"
    by (simp only: unsigned_take_bit_eq) (simp add: take_bit_eq_mod)
  from assms consider "w = 1" | "w = 2" | "w = 4" by auto
  then show ?thesis
  proof cases
    case 1
    then show ?thesis by simp
  next
    case 2
    then show ?thesis using u1 by (simp add: m1 unat_eq_0 [symmetric])
  next
    case 3
    then show ?thesis using u3 by (simp add: m3 unat_eq_0 [symmetric])
  qed
qed

lemma le_bytes_word:
  fixes v :: "32 word"
  shows "ucast (ucast v :: 8 word)
         OR push_bit 8 (ucast (ucast (drop_bit 8 v) :: 8 word))
         OR push_bit 16 (ucast (ucast (drop_bit 16 v) :: 8 word))
         OR push_bit 24 (ucast (ucast (drop_bit 24 v) :: 8 word)) = v" (is "?w = v")
proof (rule bit_word_eqI)
  fix n :: nat
  assume "n < LENGTH(32)"
  then consider "n < 8" | "8 \<le> n" "n < 16" | "16 \<le> n" "n < 24" | "24 \<le> n" "n < 32"
    by fastforce
  then show "bit ?w n = bit v n"
    by cases (auto simp: bit_simps)
qed

lemma take_bit_32 [simp]: "take_bit 32 (w :: 32 word) = w"
  by (simp add: take_bit_word_beyond_length_eq)

lemma unat_ucast_32_64: "unat (ucast (x :: 32 word) :: 64 word) = unat x"
proof -
  have "unat x < 2 ^ 32"
    using unsigned_less [of x, where ?'a = nat] by simp
  then have "unat x < 2 ^ 64" by simp
  then show ?thesis
    by (simp add: unsigned_ucast_eq take_bit_nat_eq_self)
qed

lemma ucast_32_64_eq_0: "((ucast (x :: 32 word) :: 64 word) = 0) = (x = 0)"
  using unat_ucast_32_64 [of x] by (metis unat_eq_0)

lemma unat_pow2:
  assumes "k < 64"
  shows "unat (2 ^ k :: 64 word) = 2 ^ k"
proof -
  from assms have "(2 :: nat) ^ k < 2 ^ 64"
    by (intro power_strict_increasing) simp_all
  moreover have "(2 ^ k :: 64 word) = of_nat (2 ^ k)"
    by simp
  ultimately show ?thesis
    by (simp only: unat_of_nat) simp
qed

subsection \<open>The BAR register range\<close>

lemma bar_access_iff: "(bar_access offset \<noteq> 0) = (0x10 \<le> offset \<and> offset < 0x28)"
  by (simp add: bar_access_def hdr_defs)

lemma bar_index_less:
  assumes "bar_access offset \<noteq> 0"
  shows "bar_index offset < 6"
proof -
  from assms have lo: "0x10 \<le> offset" and hi: "offset < 0x28"
    by (simp_all add: bar_access_iff)
  from lo have "unat (offset - 0x10) = unat offset - 16"
    by (simp add: unat_sub)
  moreover from hi have "unat offset < 40"
    by (simp add: word_less_nat_alt)
  ultimately have "unat (offset - 0x10) div 4 < 6"
    by simp
  then show ?thesis
    by (simp add: bar_index_def hdr_defs drop_bit_eq_div unat_div)
qed

lemma bar_index_in_range:
  "bar_access offset \<noteq> 0 \<Longrightarrow> wf_vdev (vdev s) \<Longrightarrow> bar_index offset < length (bar (vdev s))"
  using bar_index_less [of offset] by (simp add: wf_vdev_def PCI_BAR_COUNT_def)

subsection \<open>The configuration-space image\<close>

lemma read_u32_write_u32:
  "pci_vdev_read_cfg_u32 (pci_vdev_write_cfg_u32 vd offset v) offset = v"
  by (simp add: pci_vdev_read_cfg_u32_def pci_vdev_write_cfg_u32_def le_bytes_word)

lemma read_cfg_u32_bar_update [simp]:
  "pci_vdev_read_cfg_u32 (vd\<lparr>bar := bs\<rparr>) offset = pci_vdev_read_cfg_u32 vd offset"
  by (simp add: pci_vdev_read_cfg_u32_def)

lemma write_cfg_u32_fields [simp]:
  "bar (pci_vdev_write_cfg_u32 vd offset v) = bar vd"
  "pdev (pci_vdev_write_cfg_u32 vd offset v) = pdev vd"
  by (simp_all add: pci_vdev_write_cfg_u32_def)

lemma init_bar_registers_read:
  assumes "i < 6"
  shows "pci_vdev_read_cfg_u32 (vdev_pt_init_bar_registers vd) (PCIR_BAR (of_nat i))
           = ucast (PCI_BAR (base (bar vd ! i)) (type_bar (bar vd ! i)))"
proof -
  from assms consider "i = 0" | "i = 1" | "i = 2" | "i = 3" | "i = 4" | "i = 5"
    by linarith
  then show ?thesis
    by cases
      (simp_all add: vdev_pt_init_bar_registers_def vdev_pt_init_bar_registers_from.simps
        PCI_BAR_COUNT_def PCIR_BAR_def PCIR_BARS_def pci_vdev_read_cfg_u32_def
        pci_vdev_write_cfg_u32_def le_bytes_word,
       simp_all add: eval_nat_numeral)
qed

subsection \<open>Traces\<close>

lemma ept_calls_append [simp]: "ept_calls (t @ u) = ept_calls t @ ept_calls u"
  by (simp add: ept_calls_def)

lemma pio_calls_append [simp]: "pio_calls (t @ u) = pio_calls t @ pio_calls u"
  by (simp add: pio_calls_def)

lemma ept_calls_simps [simp]:
  "ept_calls [] = []"
  "ept_calls (e # t) = (if is_ept_call e then e # ept_calls t else ept_calls t)"
  by (simp_all add: ept_calls_def)

lemma pio_calls_simps [simp]:
  "pio_calls [] = []"
  "pio_calls (e # t) = (if is_pio_call e then e # pio_calls t else pio_calls t)"
  by (simp_all add: pio_calls_def)

lemma memen_state:
  "snd (memen E s) =
     s\<lparr>trace := trace s @
        [Spinlock_obtain,
         Pio_write (pci_pdev_calc_address (bdf (pdev (vdev s))) PCIR_COMMAND) PCI_CONFIG_ADDR 4,
         Pio_read PCI_CONFIG_DATA 2,
         Spinlock_release]\<rparr>"
  by (simp add: memen_def io_defs Let_def PCIR_COMMAND_def split: prod.splits)

lemma memen_value:
  "fst (memen E s) =
     take_bit 16 (pio_read_val E (trace s @
        [Spinlock_obtain,
         Pio_write (pci_pdev_calc_address (bdf (pdev (vdev s))) PCIR_COMMAND) PCI_CONFIG_ADDR 4,
         Pio_read PCI_CONFIG_DATA 2])) AND PCIM_CMD_MEMEN"
  by (simp add: memen_def io_defs Let_def split_beta PCIR_COMMAND_def)

lemma memen_fields [simp]:
  "vdev (snd (memen E s)) = vdev s"
  "vm_of (snd (memen E s)) = vm_of s"
  "ept_calls (trace (snd (memen E s))) = ept_calls (trace s)"
  "pio_calls (trace (snd (memen E s))) = pio_calls (trace s) @
     [Pio_write (pci_pdev_calc_address (bdf (pdev (vdev s))) PCIR_COMMAND) PCI_CONFIG_ADDR 4,
      Pio_read PCI_CONFIG_DATA 2]"
  by (simp_all add: memen_state)

lemma remap_bar_fields [simp]:
  "vdev (snd (vdev_pt_remap_bar E s idx nb)) = vdev s"
  "vm_of (snd (vdev_pt_remap_bar E s idx nb)) = vm_of s"
  "pio_calls (trace (snd (vdev_pt_remap_bar E s idx nb))) = pio_calls (trace s)"
  by (simp_all add: vdev_pt_remap_bar_def io_defs Let_def split_beta)

lemma remap_bar_ept:
  "ept_calls (trace (snd (vdev_pt_remap_bar E s idx nb))) = ept_calls (trace s) @
     (let b = bar (vdev s) ! idx;
          del = Ept_mr_del (nworld_eptp (vm_of s)) (base b) (size_bar b);
          add = Ept_mr_add (nworld_eptp (vm_of s)) (base (pdev_bar (pdev (vdev s)) ! idx))
                  (ucast nb) (size_bar b) (EPT_WR OR EPT_RD OR EPT_UNCACHED)
      in if base b \<noteq> 0 then
           del # (if ept_mr_del_ret E (trace s @ [del]) = 0 \<and> nb \<noteq> 0 then [add] else [])
         else if nb \<noteq> 0 then [add] else [])"
  by (simp add: vdev_pt_remap_bar_def io_defs Let_def split_beta)

lemma pr_err_fields [simp]:
  "vdev (pr_err f a s) = vdev s"
  "vm_of (pr_err f a s) = vm_of s"
  "ept_calls (trace (pr_err f a s)) = ept_calls (trace s)"
  "pio_calls (trace (pr_err f a s)) = pio_calls (trace s)"
  by (simp_all add: pr_err_def emit_def)

lemma pdev_write_cfg_vdev [simp]: "vdev (pci_pdev_write_cfg s offset bytes val) = vdev s"
  by (simp add: io_defs Let_def)

lemma assign_fields [simp]:
  "vdev (snd (assign_iommu_device E s d b f)) = vdev s"
  "vm_of (snd (assign_iommu_device E s d b f)) = vm_of s"
  "trace (snd (assign_iommu_device E s d b f)) = trace s @ [Assign_iommu_device d b f]"
  "fst (assign_iommu_device E s d b f)
     = assign_iommu_device_ret E (trace s @ [Assign_iommu_device d b f])"
  by (simp_all add: assign_iommu_device_def emit_def Let_def)

lemma domain_fields [simp]:
  "vdev (snd (create_iommu_domain E s a b c)) = vdev s"
  "vdev (snd (alloc_paging_struct E s)) = vdev s"
  by (simp_all add: create_iommu_domain_def alloc_paging_struct_def emit_def Let_def)

subsection \<open>The BAR write, unfolded\<close>

lemma cfgwrite_bar_unfold:
  "vdev_pt_cfgwrite_bar E s offset bytes val =
     (let idx = bar_index offset;
          b = bar (vdev s) ! idx;
          nb = val AND size_mask b
      in if decoded_base b val = base b then s
         else
           let s1 = snd (memen E s);
               r = vdev_pt_remap_bar E s1 idx (PCI_BAR_BASE nb);
               s2 = (if fst (memen E s) \<noteq> 0 \<and> val \<noteq> 0xFFFFFFFF then
                       (if fst r \<noteq> 0 then pr_err ''vdev_pt_remap_bar failed: %d'' [idx] (snd r)
                        else snd r)
                     else s1);
               vd = pci_vdev_write_cfg_u32 (vdev s2) offset nb
           in s2\<lparr>vdev := vd\<lparr>bar := (bar vd)[idx := (bar vd ! idx)\<lparr>base := decoded_base b val\<rparr>]\<rparr>\<rparr>)"
  by (simp add: vdev_pt_cfgwrite_bar_def Let_def split_beta decoded_base_def size_mask_def
      bar_index_def PCIM_BAR_MEM_SPACE_def PCIM_BAR_MEM_32_def)

lemma cfgwrite_bars:
  "bar (vdev (snd (vdev_pt_cfgwrite E s offset bytes val))) = bar (vdev s) \<or>
   bar (vdev (snd (vdev_pt_cfgwrite E s offset bytes val))) =
     (bar (vdev s))[bar_index offset :=
        (bar (vdev s) ! bar_index offset)
          \<lparr>base := decoded_base (bar (vdev s) ! bar_index offset) val\<rparr>]"
  by (simp add: vdev_pt_cfgwrite_def cfgwrite_bar_unfold Let_def)

subsection \<open>Alignment of a decoded base\<close>

lemma decoded_base_low_bits:
  assumes "size_bar b = 2 ^ k" and "k < 64"
  shows "take_bit k (decoded_base b val) = 0"
proof (rule bit_word_eqI)
  fix n :: nat
  assume "n < LENGTH(64)"
  have "size_bar b - 1 = mask k"
    using assms(1) by (simp add: mask_eq_exp_minus_1)
  then show "bit (take_bit k (decoded_base b val)) n = bit (0 :: 64 word) n"
    by (auto simp: decoded_base_def size_mask_def PCI_BAR_BASE_def bit_simps)
qed

lemma decoded_base_aligned:
  assumes "pow2_size b"
  shows "unat (size_bar b) dvd unat (decoded_base b val)"
proof -
  from assms obtain k where k: "k < 64" "size_bar b = 2 ^ k"
    by (auto simp: pow2_size_def)
  have "unat (take_bit k (decoded_base b val)) = unat (decoded_base b val) mod 2 ^ k"
    by (simp only: unsigned_take_bit_eq) (simp add: take_bit_eq_mod)
  with decoded_base_low_bits [OF k(2,1), of val]
  have "unat (decoded_base b val) mod 2 ^ k = 0"
    by simp
  moreover from k have "unat (size_bar b) = 2 ^ k"
    by (simp add: unat_pow2)
  ultimately show ?thesis
    by (simp add: dvd_eq_mod_eq_0)
qed

lemma cfgwrite_bar_step:
  assumes "i < length (bar (vdev s))" and "pow2_size (bar (vdev s) ! i)"
  shows "length (bar (vdev (snd (vdev_pt_cfgwrite E s offset bytes val)))) = length (bar (vdev s)) \<and>
         size_bar (bar (vdev (snd (vdev_pt_cfgwrite E s offset bytes val))) ! i)
           = size_bar (bar (vdev s) ! i) \<and>
         (base (bar (vdev (snd (vdev_pt_cfgwrite E s offset bytes val))) ! i)
            = base (bar (vdev s) ! i) \<or>
          bar_aligned (bar (vdev (snd (vdev_pt_cfgwrite E s offset bytes val))) ! i))"
proof -
  let ?xs = "bar (vdev s)" and ?j = "bar_index offset"
  let ?y = "(?xs ! ?j)\<lparr>base := decoded_base (?xs ! ?j) val\<rparr>"
  have upd: "length (?xs[?j := ?y]) = length ?xs \<and>
             size_bar (?xs[?j := ?y] ! i) = size_bar (?xs ! i) \<and>
             (base (?xs[?j := ?y] ! i) = base (?xs ! i) \<or> bar_aligned (?xs[?j := ?y] ! i))"
  proof (cases "?j = i")
    case True
    with assms(2) have "pow2_size (?xs ! ?j)" by simp
    from decoded_base_aligned [OF this, of val] have "bar_aligned ?y"
      by (simp add: bar_aligned_def)
    with True assms(1) show ?thesis by simp
  next
    case False
    then show ?thesis by simp
  qed
  from cfgwrite_bars [of E s offset bytes val] show ?thesis
  proof
    assume "bar (vdev (snd (vdev_pt_cfgwrite E s offset bytes val))) = ?xs"
    then show ?thesis by simp
  next
    assume "bar (vdev (snd (vdev_pt_cfgwrite E s offset bytes val))) = ?xs[?j := ?y]"
    with upd show ?thesis by simp
  qed
qed

lemma pow2_size_cong: "size_bar b' = size_bar b \<Longrightarrow> pow2_size b' = pow2_size b"
  by (simp add: pow2_size_def)

lemma bar_aligned_cong:
  "size_bar b' = size_bar b \<Longrightarrow> base b' = base b \<Longrightarrow> bar_aligned b' = bar_aligned b"
  by (simp add: bar_aligned_def)


subsection \<open>Validation and initialisation\<close>

lemma validate_from_fails:
  "i \<le> idx \<Longrightarrow> idx < unat PCI_BAR_COUNT \<Longrightarrow> type_bar (bar vd ! idx) \<noteq> PCIM_BAR_MEM_32 \<Longrightarrow>
   vdev_pt_init_validate_from vd i = - EINVAL"
proof (induction vd i rule: vdev_pt_init_validate_from.induct)
  case (1 vd i)
  show ?case
  proof (cases "type_bar (bar vd ! i) \<noteq> PCIM_BAR_MEM_32")
    case True
    with "1.prems" show ?thesis
      by (simp add: vdev_pt_init_validate_from.simps [of vd i])
  next
    case False
    with "1.prems" have "i \<noteq> idx" by auto
    with "1.prems" have "Suc i \<le> idx" by simp
    with "1.IH" "1.prems" False have "vdev_pt_init_validate_from vd (Suc i) = - EINVAL"
      by simp
    with "1.prems" False show ?thesis
      by (simp add: vdev_pt_init_validate_from.simps [of vd i])
  qed
qed

lemma init_ok_vdev:
  "vdev_pt_init_validate (vdev s) = 0 \<Longrightarrow>
   vdev (snd (vdev_pt_init E s)) = vdev_pt_init_bar_registers (vdev s)"
  by (simp add: vdev_pt_init_def Let_def split_beta)

lemma init_ok_ret:
  "vdev_pt_init_validate (vdev s) = 0 \<Longrightarrow>
   fst (vdev_pt_init E s) = assign_iommu_device_ret E (trace (snd (vdev_pt_init E s)))"
  by (simp add: vdev_pt_init_def Let_def split_beta)

lemma init_ok_last:
  "vdev_pt_init_validate (vdev s) = 0 \<Longrightarrow>
   last (trace (snd (vdev_pt_init E s))) =
     Assign_iommu_device (iommu (vm_of (snd (vdev_pt_init E s))))
       (PCI_BUS (bdf (pdev (vdev s)))) (LOBYTE (bdf (pdev (vdev s))))"
  by (simp add: vdev_pt_init_def Let_def split_beta)

subsection \<open>The sample device\<close>

lemma sample_memen: "fst (memen (sample_env 2 d a g) (sample_machine b)) \<noteq> 0"
  by (simp add: memen_value sample_env_def PCIM_CMD_MEMEN_def)

lemma sample_validate: "vdev_pt_init_validate (vdev (sample_machine b)) = 0"
  by (simp add: vdev_pt_init_validate_def vdev_pt_init_validate_from.simps sample_defs
      PCI_BAR_COUNT_def)

lemma sample_pow2: "pow2_size \<lparr>base = y, size_bar = 0x10000, type_bar = t\<rparr>"
  unfolding pow2_size_def by (rule bexI [of _ 16]) simp_all

lemma zero_size_not_pow2: "\<not> pow2_size \<lparr>base = y, size_bar = 0, type_bar = t\<rparr>"
  by (simp add: pow2_size_def)

section \<open>The claims\<close>

subsection \<open>C1: remapping when the base changes\<close>

text \<open>
  C1 (as amended). On an aligned write to a BAR register of a device whose current base is
  nonzero and whose memory-space enable is set, with a value other than 0xFFFFFFFF that
  decodes to a base different from the current one: the translation calls made are one
  \<open>ept_mr_del\<close> of the old base and size, followed by one \<open>ept_mr_add\<close> of the physical
  base at the new base with the size and read, write, uncached, and the latter only when the
  removal reported no error and the new base is not 0. The base of the descriptor is the
  new base afterwards in every case, whatever the two calls report.
\<close>

theorem remap_on_base_change:
  assumes "bar_access offset \<noteq> 0" and "offset AND (bytes - 1) = 0" and "wf_vdev (vdev s)"
    and "base (bar (vdev s) ! bar_index offset) \<noteq> 0"
    and "fst (memen E s) \<noteq> 0"
    and "val \<noteq> 0xFFFFFFFF"
    and "decoded_base (bar (vdev s) ! bar_index offset) val
           \<noteq> base (bar (vdev s) ! bar_index offset)"
  shows "let idx = bar_index offset;
             b = bar (vdev s) ! idx;
             del = Ept_mr_del (nworld_eptp (vm_of s)) (base b) (size_bar b);
             add = Ept_mr_add (nworld_eptp (vm_of s)) (base (pdev_bar (pdev (vdev s)) ! idx))
                     (decoded_base b val) (size_bar b) (EPT_WR OR EPT_RD OR EPT_UNCACHED);
             s' = snd (vdev_pt_cfgwrite E s offset bytes val)
         in ept_calls (trace s') = ept_calls (trace s) @
              del # (if ept_mr_del_ret E (trace (snd (memen E s)) @ [del]) = 0
                        \<and> decoded_base b val \<noteq> 0
                     then [add] else [])
            \<and> base (bar (vdev s') ! idx) = decoded_base b val"
proof -
  have z: "(PCI_BAR_BASE (val AND size_mask b) = 0) = (decoded_base b val = 0)" for b
    by (simp add: decoded_base_def ucast_32_64_eq_0)
  show ?thesis
    using assms(1,2,4-) bar_index_in_range [OF assms(1,3)]
    by (simp add: vdev_pt_cfgwrite_def cfgwrite_bar_unfold Let_def remap_bar_ept z
        decoded_base_def [symmetric])
qed

text \<open>
  The sample device mapped at 0x80000000, memory space enabled, both translation calls
  succeeding: a write of 0x90000000 to BAR0 removes the old window and adds the new one.
\<close>

theorem remap_on_base_change_witness:
  "bar_access 0x10 \<noteq> 0 \<and> (0x10 :: 32 word) AND (4 - 1) = 0 \<and>
   wf_vdev (vdev (sample_machine 0x80000000)) \<and>
   base (bar (vdev (sample_machine 0x80000000)) ! bar_index 0x10) \<noteq> 0 \<and>
   fst (memen (sample_env 2 0 0 0) (sample_machine 0x80000000)) \<noteq> 0 \<and>
   (0x90000000 :: 32 word) \<noteq> 0xFFFFFFFF \<and>
   decoded_base (bar (vdev (sample_machine 0x80000000)) ! bar_index 0x10) 0x90000000
     \<noteq> base (bar (vdev (sample_machine 0x80000000)) ! bar_index 0x10) \<and>
   ept_calls (trace (snd (vdev_pt_cfgwrite (sample_env 2 0 0 0) (sample_machine 0x80000000)
       0x10 4 0x90000000)))
     = [Ept_mr_del 0 0x80000000 0x10000,
        Ept_mr_add 0 0xF0000000 0x90000000 0x10000 (EPT_WR OR EPT_RD OR EPT_UNCACHED)] \<and>
   base (bar (vdev (snd (vdev_pt_cfgwrite (sample_env 2 0 0 0) (sample_machine 0x80000000)
       0x10 4 0x90000000))) ! 0) = 0x90000000"
  using remap_on_base_change
    [of "0x10" 4 "sample_machine 0x80000000" "sample_env 2 0 0 0" "0x90000000"]
    sample_memen [of 0 0 0 "0x80000000"]
  by (simp add: spec_defs hdr_defs sample_defs Let_def)

text \<open>
  The claim as stated fails when the removal reports an error: \<open>vdev_pt_remap_bar\<close>
  returns at once and no translation is added. Same device and write, \<open>ept_mr_del\<close>
  returning -1: the only translation call is the removal.
\<close>

theorem remap_del_error_skips_add:
  "bar_access 0x10 \<noteq> 0 \<and> (0x10 :: 32 word) AND (4 - 1) = 0 \<and>
   base (bar (vdev (sample_machine 0x80000000)) ! bar_index 0x10) \<noteq> 0 \<and>
   fst (memen (sample_env 2 (- 1) 0 0) (sample_machine 0x80000000)) \<noteq> 0 \<and>
   (0x90000000 :: 32 word) \<noteq> 0xFFFFFFFF \<and>
   decoded_base (bar (vdev (sample_machine 0x80000000)) ! bar_index 0x10) 0x90000000
     \<noteq> base (bar (vdev (sample_machine 0x80000000)) ! bar_index 0x10) \<and>
   ept_calls (trace (snd (vdev_pt_cfgwrite (sample_env 2 (- 1) 0 0) (sample_machine 0x80000000)
       0x10 4 0x90000000)))
     = [Ept_mr_del 0 0x80000000 0x10000]"
  using sample_memen [of "- 1" 0 0 "0x80000000"]
  by (simp add: vdev_pt_cfgwrite_def cfgwrite_bar_unfold remap_bar_ept Let_def
      spec_defs hdr_defs sample_defs)

subsection \<open>C2: size-probe writes\<close>

text \<open>
  C2 (as amended). An aligned write of 0xFFFFFFFF to a BAR register makes no call to add or
  remove a translation; the base of the descriptor becomes the base field of the masked
  all-ones value, so it stays as it was only when it already had that value.
\<close>

theorem probe_write_no_translation:
  assumes "bar_access offset \<noteq> 0" and "offset AND (bytes - 1) = 0" and "wf_vdev (vdev s)"
  shows "ept_calls (trace (snd (vdev_pt_cfgwrite E s offset bytes 0xFFFFFFFF)))
           = ept_calls (trace s) \<and>
         base (bar (vdev (snd (vdev_pt_cfgwrite E s offset bytes 0xFFFFFFFF))) ! bar_index offset)
           = decoded_base (bar (vdev s) ! bar_index offset) 0xFFFFFFFF"
  using assms(1,2) bar_index_in_range [OF assms(1,3)]
  by (simp add: vdev_pt_cfgwrite_def cfgwrite_bar_unfold Let_def)

theorem probe_write_no_translation_witness:
  "bar_access 0x14 \<noteq> 0 \<and> (0x14 :: 32 word) AND (4 - 1) = 0 \<and>
   wf_vdev (vdev (sample_machine 0x80000000)) \<and>
   ept_calls (trace (snd (vdev_pt_cfgwrite (sample_env 2 0 0 0) (sample_machine 0x80000000)
       0x14 4 0xFFFFFFFF))) = [] \<and>
   base (bar (vdev (snd (vdev_pt_cfgwrite (sample_env 2 0 0 0) (sample_machine 0x80000000)
       0x14 4 0xFFFFFFFF))) ! bar_index 0x14) = 0xFFFFF000"
  using probe_write_no_translation
    [of "0x14" 4 "sample_machine 0x80000000" "sample_env 2 0 0 0"]
  by (simp add: spec_defs hdr_defs sample_defs)

text \<open>
  The claim as stated fails: the probe write changes the base of the descriptor. The
  sample device mapped at 0x80000000 has base 0xFFFF0000 in BAR0 after the probe.
\<close>

theorem probe_write_changes_base:
  "bar_access 0x10 \<noteq> 0 \<and> (0x10 :: 32 word) AND (4 - 1) = 0 \<and>
   base (bar (vdev (sample_machine 0x80000000)) ! 0) = 0x80000000 \<and>
   base (bar (vdev (snd (vdev_pt_cfgwrite (sample_env 2 0 0 0) (sample_machine 0x80000000)
       0x10 4 0xFFFFFFFF))) ! 0) = 0xFFFF0000"
  by (simp add: vdev_pt_cfgwrite_def cfgwrite_bar_unfold Let_def spec_defs hdr_defs sample_defs)

subsection \<open>C3: the routing split\<close>

text \<open>
  C3 (as amended). For an aligned access inside the BAR register range, a read makes no
  port access, and a write makes no port access when the value decodes to the current
  base and otherwise exactly the read of the physical command register (the address
  write and one 16-bit data read) through which \<open>memen\<close> looks at memory-space enable;
  it never writes to the physical configuration space. For an aligned access outside the
  range, a read and a write leave the device record (shadow BAR table and image) as it
  was, and their results and port accesses do not depend on what the shadow BAR table and
  the image hold.
\<close>

theorem cfg_routing_split:
  assumes "offset AND (bytes - 1) = 0"
  shows "(bar_access offset \<noteq> 0 \<longrightarrow>
            pio_calls (trace (snd (snd (vdev_pt_cfgread E s offset bytes)))) = pio_calls (trace s) \<and>
            pio_calls (trace (snd (vdev_pt_cfgwrite E s offset bytes val))) =
              pio_calls (trace s) @
                (if decoded_base (bar (vdev s) ! bar_index offset) val
                      = base (bar (vdev s) ! bar_index offset)
                 then []
                 else [Pio_write (pci_pdev_calc_address (bdf (pdev (vdev s))) PCIR_COMMAND)
                         PCI_CONFIG_ADDR 4,
                       Pio_read PCI_CONFIG_DATA 2])) \<and>
         (bar_access offset = 0 \<longrightarrow>
            vdev (snd (snd (vdev_pt_cfgread E s offset bytes))) = vdev s \<and>
            vdev (snd (vdev_pt_cfgwrite E s offset bytes val)) = vdev s \<and>
            (\<forall>bs img.
               fst (vdev_pt_cfgread E (s\<lparr>vdev := (vdev s)\<lparr>bar := bs, cfgdata := img\<rparr>\<rparr>) offset bytes)
                 = fst (vdev_pt_cfgread E s offset bytes) \<and>
               fst (snd (vdev_pt_cfgread E (s\<lparr>vdev := (vdev s)\<lparr>bar := bs, cfgdata := img\<rparr>\<rparr>)
                           offset bytes))
                 = fst (snd (vdev_pt_cfgread E s offset bytes)) \<and>
               trace (snd (snd (vdev_pt_cfgread E (s\<lparr>vdev := (vdev s)\<lparr>bar := bs, cfgdata := img\<rparr>\<rparr>)
                                  offset bytes)))
                 = trace (snd (snd (vdev_pt_cfgread E s offset bytes))) \<and>
               trace (snd (vdev_pt_cfgwrite E (s\<lparr>vdev := (vdev s)\<lparr>bar := bs, cfgdata := img\<rparr>\<rparr>)
                             offset bytes val))
                 = trace (snd (vdev_pt_cfgwrite E s offset bytes val))))"
proof (intro conjI impI allI)
  assume "bar_access offset \<noteq> 0"
  then show "pio_calls (trace (snd (snd (vdev_pt_cfgread E s offset bytes)))) = pio_calls (trace s)"
    using assms by (simp add: vdev_pt_cfgread_def)
next
  assume "bar_access offset \<noteq> 0"
  then show "pio_calls (trace (snd (vdev_pt_cfgwrite E s offset bytes val))) =
      pio_calls (trace s) @
        (if decoded_base (bar (vdev s) ! bar_index offset) val
              = base (bar (vdev s) ! bar_index offset)
         then []
         else [Pio_write (pci_pdev_calc_address (bdf (pdev (vdev s))) PCIR_COMMAND)
                 PCI_CONFIG_ADDR 4,
               Pio_read PCI_CONFIG_DATA 2])"
    using assms by (simp add: vdev_pt_cfgwrite_def cfgwrite_bar_unfold Let_def)
qed (use assms in \<open>simp_all add: vdev_pt_cfgread_def vdev_pt_cfgwrite_def io_defs Let_def split_beta\<close>)

text \<open>
  On the sample device: a 4-byte write to BAR1 (offset 0x14) that changes its base, and a
  2-byte read and write of the command register (offset 4).
\<close>

theorem cfg_routing_split_witness:
  "(0x14 :: 32 word) AND (4 - 1) = 0 \<and> bar_access 0x14 \<noteq> 0 \<and>
   pio_calls (trace (snd (snd (vdev_pt_cfgread (sample_env 2 0 0 0) (sample_machine 0) 0x14 4))))
     = [] \<and>
   pio_calls (trace (snd (vdev_pt_cfgwrite (sample_env 2 0 0 0) (sample_machine 0) 0x14 4
       0xA0000000)))
     = [Pio_write 0x80001004 0xCF8 4, Pio_read 0xCFC 2] \<and>
   (0x04 :: 32 word) AND (2 - 1) = 0 \<and> bar_access 0x04 = 0 \<and>
   vdev (snd (snd (vdev_pt_cfgread (sample_env 2 0 0 0) (sample_machine 0) 0x04 2)))
     = vdev (sample_machine 0) \<and>
   vdev (snd (vdev_pt_cfgwrite (sample_env 2 0 0 0) (sample_machine 0) 0x04 2 6))
     = vdev (sample_machine 0)"
  using cfg_routing_split [of "0x14" 4 "sample_env 2 0 0 0" "sample_machine 0" "0xA0000000"]
    cfg_routing_split [of "0x04" 2 "sample_env 2 0 0 0" "sample_machine 0" 6]
  by (simp add: spec_defs hdr_defs sample_defs pci_pdev_calc_address_def PCIR_COMMAND_def
      PCI_CONFIG_ADDR_def PCI_CONFIG_DATA_def PCI_CFG_ENABLE_def)

text \<open>
  The claim as stated fails for writes inside the range: a write that changes the base
  reads the physical command register through the configuration ports.
\<close>

theorem bar_write_reads_command_register:
  "(0x10 :: 32 word) AND (4 - 1) = 0 \<and> bar_access 0x10 \<noteq> 0 \<and>
   pio_calls (trace (sample_machine 0)) = [] \<and>
   pio_calls (trace (snd (vdev_pt_cfgwrite (sample_env 2 0 0 0) (sample_machine 0) 0x10 4
       0x80000000)))
     = [Pio_write 0x80001004 0xCF8 4, Pio_read 0xCFC 2]"
  by (simp add: vdev_pt_cfgwrite_def cfgwrite_bar_unfold Let_def spec_defs hdr_defs sample_defs
      pci_pdev_calc_address_def PCIR_COMMAND_def PCI_CONFIG_ADDR_def PCI_CONFIG_DATA_def
      PCI_CFG_ENABLE_def)

subsection \<open>C4: a failed attachment\<close>

text \<open>
  C4 (as amended). When validation has passed, \<open>vdev_pt_init\<close> returns what attaching the
  device to the IOMMU domain returned, so an attachment error reaches the caller; the
  attachment is the last call made; and on that path too every BAR register of the
  configuration-space image is initialised from the base and type of its descriptor.
\<close>

theorem init_attach_result:
  assumes "vdev_pt_init_validate (vdev s) = 0"
  shows "fst (vdev_pt_init E s) = assign_iommu_device_ret E (trace (snd (vdev_pt_init E s))) \<and>
         last (trace (snd (vdev_pt_init E s))) =
           Assign_iommu_device (iommu (vm_of (snd (vdev_pt_init E s))))
             (PCI_BUS (bdf (pdev (vdev s)))) (LOBYTE (bdf (pdev (vdev s)))) \<and>
         vdev (snd (vdev_pt_init E s)) = vdev_pt_init_bar_registers (vdev s) \<and>
         (\<forall>i < 6. pci_vdev_read_cfg_u32 (vdev (snd (vdev_pt_init E s))) (PCIR_BAR (of_nat i))
                    = ucast (PCI_BAR (base (bar (vdev s) ! i)) (type_bar (bar (vdev s) ! i))))"
  using init_ok_ret [OF assms, of E] init_ok_last [OF assms, of E] init_ok_vdev [OF assms, of E]
  by (simp add: init_bar_registers_read)

text \<open>The sample device with BAR0 at 0x90000000, attachment failing with -5.\<close>

theorem init_attach_result_witness:
  "vdev_pt_init_validate (vdev (sample_machine 0x90000000)) = 0 \<and>
   fst (vdev_pt_init (sample_env 2 0 0 (- 5)) (sample_machine 0x90000000)) = - 5 \<and>
   pci_vdev_read_cfg_u32
     (vdev (snd (vdev_pt_init (sample_env 2 0 0 (- 5)) (sample_machine 0x90000000))))
     (PCIR_BAR (of_nat 0)) = 0x90000000"
  using init_attach_result [OF sample_validate, of "sample_env 2 0 0 (- 5)" "0x90000000",
      THEN conjunct1]
    init_attach_result [OF sample_validate, of "sample_env 2 0 0 (- 5)" "0x90000000",
      THEN conjunct2, THEN conjunct2, THEN conjunct2, rule_format, of 0]
    sample_validate [of "0x90000000"]
  by (simp add: sample_defs PCI_BAR_def PCIM_BAR_MEM_32_def)

text \<open>
  The claim as stated fails: with the attachment failing, the BAR registers of the image
  are written all the same. On the sample device the image holds 0 at BAR0 before
  \<open>vdev_pt_init\<close> and the base 0x80000000 after it, while the call returns the error -1.
\<close>

theorem init_attach_failure_writes_bars:
  "vdev_pt_init_validate (vdev (sample_machine 0x80000000)) = 0 \<and>
   fst (vdev_pt_init (sample_env 2 0 0 (- 1)) (sample_machine 0x80000000)) = - 1 \<and>
   pci_vdev_read_cfg_u32 (vdev (sample_machine 0x80000000)) (PCIR_BAR 0) = 0 \<and>
   pci_vdev_read_cfg_u32
     (vdev (snd (vdev_pt_init (sample_env 2 0 0 (- 1)) (sample_machine 0x80000000))))
     (PCIR_BAR 0) = 0x80000000"
  using init_ok_ret [OF sample_validate, of "sample_env 2 0 0 (- 1)" "0x80000000"]
    init_ok_vdev [OF sample_validate, of "sample_env 2 0 0 (- 1)" "0x80000000"]
    init_bar_registers_read [of 0 "vdev (sample_machine 0x80000000)"]
    sample_validate [of "0x80000000"]
  by (simp add: sample_defs PCI_BAR_def PCIM_BAR_MEM_32_def pci_vdev_read_cfg_u32_def)

subsection \<open>C5: misaligned accesses\<close>

text \<open>
  C5. For a width of 1, 2 or 4 bytes and an offset that is not a multiple of the width,
  a configuration read stores 0xFFFFFFFF and returns \<open>-EINVAL\<close> (the misaligned-access
  status), and a configuration write returns the same status and leaves the whole state
  as it was: the shadow BAR table, the configuration-space image and the trace of port
  accesses.
\<close>

theorem cfg_misaligned_access:
  "w \<in> {1, 2, 4} \<Longrightarrow> unat offset mod unat w \<noteq> 0 \<Longrightarrow>
     vdev_pt_cfgread E s offset w = (- EINVAL, 0xffffffff, s) \<and>
     vdev_pt_cfgwrite E s offset w v = (- EINVAL, s)"
  using misaligned_iff [of w offset]
  by (simp add: vdev_pt_cfgread_def vdev_pt_cfgwrite_def)

theorem cfg_misaligned_access_witness:
  "(2 :: 32 word) \<in> {1, 2, 4} \<and> unat (0x11 :: 32 word) mod unat (2 :: 32 word) \<noteq> 0 \<and>
   vdev_pt_cfgread (sample_env 2 0 0 0) (sample_machine 0) 0x11 2
     = (- EINVAL, 0xffffffff, sample_machine 0) \<and>
   vdev_pt_cfgwrite (sample_env 2 0 0 0) (sample_machine 0) 0x11 2 0x80000000
     = (- EINVAL, sample_machine 0)"
  using cfg_misaligned_access
    [of 2 "0x11" "sample_env 2 0 0 0" "sample_machine 0" "0x80000000"]
  by simp

subsection \<open>C6: the BAR type gate\<close>

text \<open>
  C6. If one of the six BAR slots of the device record has a type other than
  \<open>PCIM_BAR_MEM_32\<close>, \<open>vdev_pt_init\<close> returns \<open>-EINVAL\<close> (the invalid-BAR-type status) and
  does nothing but log the error: no page-table root is allocated, no IOMMU domain is
  created, no device is attached, and the device record with its configuration-space image
  and the VM record are as they were.
\<close>

theorem init_rejects_non_mem32:
  assumes "idx < unat PCI_BAR_COUNT" and "type_bar (bar (vdev s) ! idx) \<noteq> PCIM_BAR_MEM_32"
  shows "vdev_pt_init E s =
           (- EINVAL,
            s\<lparr>trace := trace s @ [Pr_err ''virtual bar can only be of type PCIM_BAR_MEM_32!'' []]\<rparr>) \<and>
         iommu_calls (trace (snd (vdev_pt_init E s))) = iommu_calls (trace s) \<and>
         vdev (snd (vdev_pt_init E s)) = vdev s \<and>
         vm_of (snd (vdev_pt_init E s)) = vm_of s"
proof -
  have "vdev_pt_init_validate (vdev s) = - EINVAL"
    using validate_from_fails [of 0 idx "vdev s"] assms
    by (simp add: vdev_pt_init_validate_def)
  then show ?thesis
    by (simp add: vdev_pt_init_def EINVAL_def pr_err_def emit_def iommu_calls_def)
qed

text \<open>The sample device with a 64-bit memory BAR (type 4) in slot 3.\<close>

theorem init_rejects_non_mem32_witness:
  "(3 :: nat) < unat PCI_BAR_COUNT \<and>
   type_bar (bar (vdev ((sample_machine 0)\<lparr>vdev := (vdev (sample_machine 0))
      \<lparr>bar := (sample_bars 0)[3 := \<lparr>base = 0, size_bar = 0x1000, type_bar = 4\<rparr>]\<rparr>\<rparr>)) ! 3)
     \<noteq> PCIM_BAR_MEM_32 \<and>
   fst (vdev_pt_init (sample_env 2 0 0 0) ((sample_machine 0)\<lparr>vdev := (vdev (sample_machine 0))
      \<lparr>bar := (sample_bars 0)[3 := \<lparr>base = 0, size_bar = 0x1000, type_bar = 4\<rparr>]\<rparr>\<rparr>)) = - EINVAL \<and>
   iommu_calls (trace (snd (vdev_pt_init (sample_env 2 0 0 0) ((sample_machine 0)\<lparr>vdev := (vdev (sample_machine 0))
      \<lparr>bar := (sample_bars 0)[3 := \<lparr>base = 0, size_bar = 0x1000, type_bar = 4\<rparr>]\<rparr>\<rparr>)))) = []"
  using init_rejects_non_mem32 [of 3 "(sample_machine 0)\<lparr>vdev := (vdev (sample_machine 0))
      \<lparr>bar := (sample_bars 0)[3 := \<lparr>base = 0, size_bar = 0x1000, type_bar = 4\<rparr>]\<rparr>\<rparr>" "sample_env 2 0 0 0"]
  by (simp add: PCI_BAR_COUNT_def PCIM_BAR_MEM_32_def sample_machine_def sample_bars_def
      iommu_calls_def)

subsection \<open>C7: the end-to-end scenario\<close>

text \<open>
  C7. A device whose BAR0 has size 0x10000, physical base 0xF0000000 and current base 0,
  with memory-space enable set: the 4-byte write of
  \<open>0x80000000 | PCIM_BAR_MEM_SPACE | PCIM_BAR_MEM_32\<close> to the offset of BAR0 succeeds, makes
  no \<open>ept_mr_del\<close> call and exactly one \<open>ept_mr_add\<close> call, with physical base 0xF0000000,
  guest base 0x80000000, size 0x10000 and read, write, uncached; the base of the
  descriptor is 0x80000000 afterwards, and a 4-byte read of the offset then returns the
  written value.
\<close>

theorem bar_write_scenario:
  assumes "wf_vdev (vdev s)"
    and "size_bar (bar (vdev s) ! 0) = 0x10000"
    and "base (pdev_bar (pdev (vdev s)) ! 0) = 0xF0000000"
    and "base (bar (vdev s) ! 0) = 0"
    and "fst (memen E s) \<noteq> 0"
  shows "let v = 0x80000000 OR PCIM_BAR_MEM_SPACE OR PCIM_BAR_MEM_32;
             r = vdev_pt_cfgwrite E s (PCIR_BAR 0) 4 v;
             s' = snd r
         in fst r = 0 \<and>
            ept_calls (trace s') = ept_calls (trace s) @
              [Ept_mr_add (nworld_eptp (vm_of s)) 0xF0000000 0x80000000 0x10000
                 (EPT_WR OR EPT_RD OR EPT_UNCACHED)] \<and>
            base (bar (vdev s') ! 0) = 0x80000000 \<and>
            vdev_pt_cfgread E s' (PCIR_BAR 0) 4 = (0, v, s')"
proof -
  have acc: "bar_access (PCIR_BAR 0) \<noteq> 0"
    by (simp add: bar_access_def hdr_defs)
  have idx: "bar_index (PCIR_BAR 0) = 0"
    by (simp add: bar_index_def)
  have dec: "decoded_base (bar (vdev s) ! 0) 0x80000000 = 0x80000000"
    using assms(2) by (simp add: decoded_base_def size_mask_def hdr_defs)
  have msk: "(0x80000000 :: 32 word) AND size_mask (bar (vdev s) ! 0) = 0x80000000"
    using assms(2) by (simp add: size_mask_def)
  have nz: "PCI_BAR_BASE 0x80000000 = 0x80000000"
    by (simp add: hdr_defs)
  have al: "PCIR_BAR 0 AND 3 = 0"
    by (simp add: hdr_defs)
  have len: "0 < length (bar (vdev s))"
    using assms(1) by (simp add: wf_vdev_def PCI_BAR_COUNT_def)
  show ?thesis
    using assms(2-) acc len
    by (simp add: vdev_pt_cfgwrite_def vdev_pt_cfgread_def cfgwrite_bar_unfold Let_def idx dec
        msk nz al remap_bar_ept pci_vdev_read_cfg_def read_u32_write_u32
        PCIM_BAR_MEM_SPACE_def PCIM_BAR_MEM_32_def)
qed

theorem bar_write_scenario_witness:
  "wf_vdev (vdev (sample_machine 0)) \<and>
   size_bar (bar (vdev (sample_machine 0)) ! 0) = 0x10000 \<and>
   base (pdev_bar (pdev (vdev (sample_machine 0))) ! 0) = 0xF0000000 \<and>
   base (bar (vdev (sample_machine 0)) ! 0) = 0 \<and>
   fst (memen (sample_env 2 0 0 0) (sample_machine 0)) \<noteq> 0 \<and>
   fst (vdev_pt_cfgwrite (sample_env 2 0 0 0) (sample_machine 0) (PCIR_BAR 0) 4 0x80000000) = 0 \<and>
   ept_calls (trace (snd (vdev_pt_cfgwrite (sample_env 2 0 0 0) (sample_machine 0) (PCIR_BAR 0) 4
       0x80000000)))
     = [Ept_mr_add 0 0xF0000000 0x80000000 0x10000 (EPT_WR OR EPT_RD OR EPT_UNCACHED)] \<and>
   base (bar (vdev (snd (vdev_pt_cfgwrite (sample_env 2 0 0 0) (sample_machine 0) (PCIR_BAR 0) 4
       0x80000000))) ! 0) = 0x80000000 \<and>
   fst (snd (vdev_pt_cfgread (sample_env 2 0 0 0)
       (snd (vdev_pt_cfgwrite (sample_env 2 0 0 0) (sample_machine 0) (PCIR_BAR 0) 4 0x80000000))
       (PCIR_BAR 0) 4)) = 0x80000000"
  using bar_write_scenario [of "sample_machine 0" "sample_env 2 0 0 0"]
    sample_memen [of 0 0 0 0]
  by (simp add: Let_def wf_vdev_def PCI_BAR_COUNT_def PCIM_BAR_MEM_SPACE_def PCIM_BAR_MEM_32_def
      sample_defs)

subsection \<open>C8: writing the current base\<close>

text \<open>
  C8. An aligned write to a BAR register whose value, masked with \<open>~(size - 1)\<close> and
  reduced to its base field, is the current base of the descriptor returns 0 and leaves
  the whole state as it was: the shadow BAR table, the configuration-space image, and the
  trace (no translation is added or removed).
\<close>

theorem cfgwrite_same_base_noop:
  "bar_access offset \<noteq> 0 \<Longrightarrow> offset AND (bytes - 1) = 0 \<Longrightarrow>
   decoded_base (bar (vdev s) ! bar_index offset) val = base (bar (vdev s) ! bar_index offset) \<Longrightarrow>
   vdev_pt_cfgwrite E s offset bytes val = (0, s)"
proof -
  assume acc: "bar_access offset \<noteq> 0" and al: "offset AND (bytes - 1) = 0"
    and same: "decoded_base (bar (vdev s) ! bar_index offset) val
                 = base (bar (vdev s) ! bar_index offset)"
  from acc al
  have "vdev_pt_cfgwrite E s offset bytes val = (0, vdev_pt_cfgwrite_bar E s offset bytes val)"
    by (simp add: vdev_pt_cfgwrite_def)
  moreover from same have "vdev_pt_cfgwrite_bar E s offset bytes val = s"
    by (simp add: cfgwrite_bar_unfold Let_def)
  ultimately show ?thesis
    by simp
qed

theorem cfgwrite_same_base_noop_witness:
  "bar_access 0x10 \<noteq> 0 \<and> (0x10 :: 32 word) AND (4 - 1) = 0 \<and>
   decoded_base (bar (vdev (sample_machine 0x80000000)) ! bar_index 0x10) 0x80000004
     = base (bar (vdev (sample_machine 0x80000000)) ! bar_index 0x10) \<and>
   vdev_pt_cfgwrite (sample_env 2 0 0 0) (sample_machine 0x80000000) 0x10 4 0x80000004
     = (0, sample_machine 0x80000000)"
  using cfgwrite_same_base_noop
    [of "0x10" 4 "sample_machine 0x80000000" "0x80000004" "sample_env 2 0 0 0"]
  by (simp add: spec_defs hdr_defs sample_defs)

subsection \<open>C9: the base of a descriptor is aligned\<close>

text \<open>
  C9. Take any descriptor of the device record whose size is a power of two; nothing is
  asked of the other descriptors. After any sequence of configuration writes the BAR array
  has the length it had, the descriptor has the size it had, and its base is either the
  base it had before the sequence or is 0 or a multiple of its size. Hence, if its base
  was 0 or a multiple of its size before the sequence, so it is after it.
\<close>

theorem bar_base_invariant:
  assumes "i < length (bar (vdev s))" and "pow2_size (bar (vdev s) ! i)"
  shows "length (bar (vdev (cfgwrites E s ws))) = length (bar (vdev s)) \<and>
         size_bar (bar (vdev (cfgwrites E s ws)) ! i) = size_bar (bar (vdev s) ! i) \<and>
         (base (bar (vdev (cfgwrites E s ws)) ! i) = base (bar (vdev s) ! i) \<or>
          bar_aligned (bar (vdev (cfgwrites E s ws)) ! i)) \<and>
         (bar_aligned (bar (vdev s) ! i) \<longrightarrow> bar_aligned (bar (vdev (cfgwrites E s ws)) ! i))"
proof -
  have rel: "length (bar (vdev (cfgwrites E s ws))) = length (bar (vdev s)) \<and>
         size_bar (bar (vdev (cfgwrites E s ws)) ! i) = size_bar (bar (vdev s) ! i) \<and>
         (base (bar (vdev (cfgwrites E s ws)) ! i) = base (bar (vdev s) ! i) \<or>
          bar_aligned (bar (vdev (cfgwrites E s ws)) ! i))"
    using assms
  proof (induction ws arbitrary: s)
    case Nil
    then show ?case by simp
  next
    case (Cons w ws)
    obtain offset bytes val where w: "w = (offset, bytes, val)"
      by (cases w) auto
    let ?s1 = "snd (vdev_pt_cfgwrite E s offset bytes val)"
    from cfgwrite_bar_step [OF Cons.prems, of E offset bytes val]
    have len: "length (bar (vdev ?s1)) = length (bar (vdev s))"
      and sz: "size_bar (bar (vdev ?s1) ! i) = size_bar (bar (vdev s) ! i)"
      and bs: "base (bar (vdev ?s1) ! i) = base (bar (vdev s) ! i) \<or> bar_aligned (bar (vdev ?s1) ! i)"
      by blast+
    from len Cons.prems(1) have i1: "i < length (bar (vdev ?s1))"
      by simp
    from pow2_size_cong [OF sz] Cons.prems(2) have p1: "pow2_size (bar (vdev ?s1) ! i)"
      by simp
    let ?s2 = "cfgwrites E ?s1 ws"
    from Cons.IH [OF i1 p1]
    have len2: "length (bar (vdev ?s2)) = length (bar (vdev ?s1))"
      and sz2: "size_bar (bar (vdev ?s2) ! i) = size_bar (bar (vdev ?s1) ! i)"
      and bs2: "base (bar (vdev ?s2) ! i) = base (bar (vdev ?s1) ! i) \<or> bar_aligned (bar (vdev ?s2) ! i)"
      by blast+
    have "base (bar (vdev ?s2) ! i) = base (bar (vdev s) ! i) \<or> bar_aligned (bar (vdev ?s2) ! i)"
    proof (cases "bar_aligned (bar (vdev ?s2) ! i)")
      case True
      then show ?thesis by simp
    next
      case False
      with bs2 have e2: "base (bar (vdev ?s2) ! i) = base (bar (vdev ?s1) ! i)"
        by simp
      with bar_aligned_cong [OF sz2 e2] False have "\<not> bar_aligned (bar (vdev ?s1) ! i)"
        by simp
      with bs e2 show ?thesis by simp
    qed
    with len len2 sz sz2 show ?case
      by (simp add: w)
  qed
  have "bar_aligned (bar (vdev (cfgwrites E s ws)) ! i)" if al: "bar_aligned (bar (vdev s) ! i)"
  proof (cases "base (bar (vdev (cfgwrites E s ws)) ! i) = base (bar (vdev s) ! i)")
    case True
    from rel have "size_bar (bar (vdev (cfgwrites E s ws)) ! i) = size_bar (bar (vdev s) ! i)"
      by simp
    from bar_aligned_cong [OF this True] al show ?thesis
      by simp
  next
    case False
    with rel show ?thesis by simp
  qed
  with rel show ?thesis by blast
qed

text \<open>
  The sample device, unmapped, with a BAR5 of size 0 (which is no power of two, and which
  validation accepts), after a write to BAR0, a probe of BAR1, a write to the command
  register and a second write to BAR0: BAR0 keeps its size and its base is aligned.
\<close>

theorem bar_base_invariant_witness:
  "(0 :: nat) < length (bar (vdev (sample_machine 0\<lparr>vdev := (vdev (sample_machine 0))
      \<lparr>bar := (sample_bars 0)[5 := \<lparr>base = 0, size_bar = 0, type_bar = PCIM_BAR_MEM_32\<rparr>]\<rparr>\<rparr>))) \<and>
   pow2_size (bar (vdev (sample_machine 0\<lparr>vdev := (vdev (sample_machine 0))
      \<lparr>bar := (sample_bars 0)[5 := \<lparr>base = 0, size_bar = 0, type_bar = PCIM_BAR_MEM_32\<rparr>]\<rparr>\<rparr>)) ! 0) \<and>
   \<not> pow2_size (bar (vdev (sample_machine 0\<lparr>vdev := (vdev (sample_machine 0))
      \<lparr>bar := (sample_bars 0)[5 := \<lparr>base = 0, size_bar = 0, type_bar = PCIM_BAR_MEM_32\<rparr>]\<rparr>\<rparr>)) ! 5) \<and>
   vdev_pt_init_validate (vdev (sample_machine 0\<lparr>vdev := (vdev (sample_machine 0))
      \<lparr>bar := (sample_bars 0)[5 := \<lparr>base = 0, size_bar = 0, type_bar = PCIM_BAR_MEM_32\<rparr>]\<rparr>\<rparr>)) = 0 \<and>
   bar_aligned (bar (vdev (sample_machine 0\<lparr>vdev := (vdev (sample_machine 0))
      \<lparr>bar := (sample_bars 0)[5 := \<lparr>base = 0, size_bar = 0, type_bar = PCIM_BAR_MEM_32\<rparr>]\<rparr>\<rparr>)) ! 0) \<and>
   size_bar (bar (vdev (cfgwrites (sample_env 2 0 0 0)
      (sample_machine 0\<lparr>vdev := (vdev (sample_machine 0))
        \<lparr>bar := (sample_bars 0)[5 := \<lparr>base = 0, size_bar = 0, type_bar = PCIM_BAR_MEM_32\<rparr>]\<rparr>\<rparr>)
      [(0x10, 4, 0x80000000), (0x14, 4, 0xFFFFFFFF), (0x04, 2, 6), (0x10, 4, 0x90000004)])) ! 0)
     = 0x10000 \<and>
   bar_aligned (bar (vdev (cfgwrites (sample_env 2 0 0 0)
      (sample_machine 0\<lparr>vdev := (vdev (sample_machine 0))
        \<lparr>bar := (sample_bars 0)[5 := \<lparr>base = 0, size_bar = 0, type_bar = PCIM_BAR_MEM_32\<rparr>]\<rparr>\<rparr>)
      [(0x10, 4, 0x80000000), (0x14, 4, 0xFFFFFFFF), (0x04, 2, 6), (0x10, 4, 0x90000004)])) ! 0)"
proof -
  let ?s = "sample_machine 0\<lparr>vdev := (vdev (sample_machine 0))
      \<lparr>bar := (sample_bars 0)[5 := \<lparr>base = 0, size_bar = 0, type_bar = PCIM_BAR_MEM_32\<rparr>]\<rparr>\<rparr>"
  let ?ws = "[(0x10, 4, 0x80000000), (0x14, 4, 0xFFFFFFFF), (0x04, 2, 6), (0x10, 4, 0x90000004)]
               :: (32 word \<times> 32 word \<times> 32 word) list"
  have len: "0 < length (bar (vdev ?s))"
    by (simp add: sample_defs)
  have b0: "bar (vdev ?s) ! 0 = \<lparr>base = 0, size_bar = 0x10000, type_bar = PCIM_BAR_MEM_32\<rparr>"
    by (simp add: sample_defs)
  have b5: "bar (vdev ?s) ! 5 = \<lparr>base = 0, size_bar = 0, type_bar = PCIM_BAR_MEM_32\<rparr>"
    by (simp add: sample_defs)
  have p0: "pow2_size (bar (vdev ?s) ! 0)"
    by (simp only: b0 sample_pow2)
  have p5: "\<not> pow2_size (bar (vdev ?s) ! 5)"
    by (simp only: b5) (rule zero_size_not_pow2)
  have va: "vdev_pt_init_validate (vdev ?s) = 0"
    by (simp add: vdev_pt_init_validate_def vdev_pt_init_validate_from.simps sample_defs
        PCI_BAR_COUNT_def)
  have a0: "bar_aligned (bar (vdev ?s) ! 0)"
    by (simp only: b0) (simp add: bar_aligned_def)
  have sz: "size_bar (bar (vdev ?s) ! 0) = 0x10000"
    by (simp only: b0) simp
  note t = bar_base_invariant [OF len p0, of "sample_env 2 0 0 0" ?ws]
  from t sz have r1: "size_bar (bar (vdev (cfgwrites (sample_env 2 0 0 0) ?s ?ws)) ! 0) = 0x10000"
    by (simp only:)
  from t a0 have r2: "bar_aligned (bar (vdev (cfgwrites (sample_env 2 0 0 0) ?s ?ws)) ! 0)"
    by blast
  from len p0 p5 va a0 r1 r2 show ?thesis
    by (intro conjI)
qed

subsection \<open>C10: the width of a BAR write\<close>




end
